theory Spec2Isabelle
  imports Complex_Main
begin

section \<open>Input streams and \<open>std::getline\<close>\<close>

text \<open>
  Both \<open>std::stringstream ss(line)\<close> in \<open>parseRow\<close> and \<open>std::ifstream ifs(filename)\<close>
  in \<open>load\<close> are read only through \<open>std::getline\<close>.  A stream is the characters not yet
  read together with its \<open>eofbit\<close> and \<open>failbit\<close>.
\<close>

record istream =
  buf :: string
  eofbit :: bool
  failbit :: bool

definition open_stream :: "string \<Rightarrow> istream" where
  "open_stream s = \<lparr>buf = s, eofbit = False, failbit = False\<rparr>"

text \<open>
  The extraction loop of \<open>getline(is, str, delim)\<close>: characters are moved to the result
  until the delimiter is met (it is extracted and dropped) or the input ends.  The
  result is the characters read, the rest of the input and whether the end was hit.
\<close>

fun read_until :: "char \<Rightarrow> string \<Rightarrow> string \<times> string \<times> bool" where
  "read_until d [] = ([], [], True)"
| "read_until d (c # cs) =
     (if c = d then ([], cs, False)
      else (case read_until d cs of (w, r, e) \<Rightarrow> (c # w, r, e)))"

text \<open>
  \<open>std::getline(is, str, delim)\<close>.  The sentry fails, and sets \<open>failbit\<close>, when the stream
  is not good.  Hitting the end of the input sets \<open>eofbit\<close>; \<open>failbit\<close> is set when no
  character at all was extracted (the delimiter counts as extracted).  The first
  component is \<open>None\<close> exactly when the stream tests false afterwards, which is what the
  \<open>while\<close> conditions of the program look at.
\<close>

definition getline :: "istream \<Rightarrow> char \<Rightarrow> string option \<times> istream" where
  "getline s d =
     (if eofbit s \<or> failbit s then (None, s\<lparr>failbit := True\<rparr>)
      else (case read_until d (buf s) of
              (w, r, e) \<Rightarrow>
                if e \<and> w = [] then (None, s\<lparr>buf := [], eofbit := True, failbit := True\<rparr>)
                else (Some w, s\<lparr>buf := r, eofbit := e\<rparr>)))"

definition stream_size :: "istream \<Rightarrow> nat" where
  "stream_size s = length (buf s) + (if eofbit s \<or> failbit s then 0 else 1)"

lemma read_until_length:
  "read_until d b = (w, r, e) \<Longrightarrow> length b = length w + length r + (if e then 0 else 1)"
  by (induction b arbitrary: w r e) (auto split: if_splits prod.splits)

lemma getline_decreases:
  assumes "getline s d = (Some w, s')"
  shows "stream_size s' < stream_size s"
proof -
  from assms have good: "\<not> eofbit s" "\<not> failbit s"
    by (auto simp: getline_def split: if_splits)
  obtain w0 r e where ru: "read_until d (buf s) = (w0, r, e)"
    by (cases "read_until d (buf s)") auto
  from assms good ru have s': "s' = s\<lparr>buf := r, eofbit := e\<rparr>" and ne: "\<not> (e \<and> w0 = [])"
    by (auto simp: getline_def split: if_splits)
  from read_until_length [OF ru] ne good show ?thesis
    by (auto simp: stream_size_def s' split: if_splits)
qed

section \<open>The CSV reader\<close>

subsection \<open>\<open>CSVReader::parseRow\<close>\<close>

text \<open>
  \<^verbatim>\<open>while (std::getline(ss, cell, ',')) { fields.push_back(cell); }\<close>
\<close>

function parseRow_loop :: "istream \<Rightarrow> string list \<Rightarrow> string list" where
  "parseRow_loop ss flds =
     (case getline ss (CHR '','') of
        (None, ss') \<Rightarrow> flds
      | (Some cell, ss') \<Rightarrow> parseRow_loop ss' (flds @ [cell]))"
  by pat_completeness auto
termination
  by (relation "measure (\<lambda>(ss, flds). stream_size ss)")
     (auto dest: getline_decreases [OF sym])

declare parseRow_loop.simps [simp del]

definition parseRow :: "string \<Rightarrow> string list" where
  "parseRow line = parseRow_loop (open_stream line) []"

subsection \<open>The store and the outside world\<close>

text \<open>
  The two data members of \<open>class CSVReader\<close>: \<open>data\<close>, the rows, and \<open>headers\<close>.  A
  default-constructed reader holds two empty vectors.
\<close>

record CSVReader =
  data :: "string list list"
  headers :: "string list"

definition new_reader :: CSVReader where
  "new_reader = \<lparr>data = [], headers = []\<rparr>"

text \<open>
  The program writes to \<open>std::cout\<close> and \<open>std::cerr\<close>; the console is the sequence of
  strings written, each with its stream.  A path names nothing, something that exists
  but cannot be opened for reading, or a file with its contents.  \<open>creatable\<close> says whether
  \<open>std::ofstream ofs(MOCK_FILENAME)\<close> manages to open its file.
\<close>

datatype ostream = Cout | Cerr

datatype fnode = NoFile | Unreadable | Readable string

record world =
  files :: "string \<Rightarrow> fnode"
  creatable :: bool
  console :: "(ostream \<times> string) list"

definition put :: "ostream \<Rightarrow> string \<Rightarrow> world \<Rightarrow> world" where
  "put os s w = w\<lparr>console := console w @ [(os, s)]\<rparr>"

definition MOCK_FILENAME :: string where
  "MOCK_FILENAME = ''data.csv''"

definition mock_contents :: string where
  "mock_contents =
     ''ItemID,Category,Price,UnitsSold,Location\<newline>'' @
     ''101,Electronics,49.99,150,East\<newline>'' @
     ''102,Books,19.50,300,West\<newline>'' @
     ''103,Electronics,129.00,80,North\<newline>'' @
     ''104,Clothing,35.75,220,East\<newline>'' @
     ''105,Books,15.00,450,South\<newline>''"

definition file_exists_modern :: "world \<Rightarrow> string \<Rightarrow> bool" where
  "file_exists_modern w filename = (files w filename \<noteq> NoFile)"

definition createMockFile :: "world \<Rightarrow> world" where
  "createMockFile w =
     (if \<not> file_exists_modern w MOCK_FILENAME then
        if creatable w then
          put Cout (''[INFO] Created mock file '' @ [CHR 0x27] @ MOCK_FILENAME @ [CHR 0x27] @
                    '' for demonstration.\<newline>'')
            (w\<lparr>files := (files w)(MOCK_FILENAME := Readable mock_contents)\<rparr>)
        else put Cerr ''[ERROR] Could not create mock file.\<newline>'' w
      else put Cerr (''[INFO] '' @ MOCK_FILENAME @
                     '' Already exists it will not be created.\<newline>'') w)"

subsection \<open>\<open>CSVReader::load\<close>\<close>

text \<open>The decimal digits of a number that is not negative, as \<open>operator<<\<close> prints \<open>data.size()\<close>.\<close>

function show_dec :: "int \<Rightarrow> string" where
  "show_dec n =
     (if n < 10 then [char_of (48 + n)]
      else show_dec (n div 10) @ [char_of (48 + n mod 10)])"
  by pat_completeness auto
termination
  by (relation "measure nat") auto

declare show_dec.simps [simp del]

text \<open>
  The reading loop of \<open>load\<close>, with the local \<open>is_header\<close> and the two members it
  assigns:
  \<^verbatim>\<open>
  while (std::getline(ifs, line)) {
      if (line.empty()) continue;
      std::vector<std::string> row_fields = parseRow(line);
      if (is_header) { headers = row_fields; is_header = false; }
      else { data.push_back(row_fields); }
  }
  \<close>
\<close>

function load_loop :: "istream \<Rightarrow> bool \<Rightarrow> CSVReader \<Rightarrow> CSVReader" where
  "load_loop ifs is_header r =
     (case getline ifs (CHR 0x0A) of
        (None, ifs') \<Rightarrow> r
      | (Some line, ifs') \<Rightarrow>
          if line = [] then load_loop ifs' is_header r
          else if is_header then load_loop ifs' False (r\<lparr>headers := parseRow line\<rparr>)
          else load_loop ifs' is_header (r\<lparr>data := data r @ [parseRow line]\<rparr>))"
  by pat_completeness auto
termination
  by (relation "measure (\<lambda>(ifs, is_header, r). stream_size ifs)")
     (auto dest: getline_decreases [OF sym])

declare load_loop.simps [simp del]

text \<open>
  \<open>load\<close> returns its \<open>bool\<close> together with the reader and the world it leaves.  The
  mock file is created first, whatever \<open>filename\<close> is; then the file is opened.
\<close>

definition load :: "string \<Rightarrow> CSVReader \<Rightarrow> world \<Rightarrow> bool \<times> CSVReader \<times> world" where
  "load filename r w =
     (let w1 = createMockFile w in
      case files w1 filename of
        Readable contents \<Rightarrow>
          (let r' = load_loop (open_stream contents) True r in
           (True, r',
            put Cout (''[SUCCESS] Loaded '' @ show_dec (int (length (data r'))) @
                      '' data rows from '' @ filename @ ''.\<newline>'') w1))
      | _ \<Rightarrow>
          (False, r, put Cerr (''[ERROR] Failed to open file: '' @ filename @ ''\<newline>'') w1))"

section \<open>Numbers\<close>

subsection \<open>\<open>double\<close>\<close>

text \<open>
  A \<open>double\<close> is an IEEE 754 binary64 value: a finite value, kept as the rational it
  denotes, an infinity or a NaN.  Every operation rounds its exact result to the nearest
  representable value, ties to even, one operation at a time (no fused multiply-add).
  The two zeros are one value here and the sign of a NaN is not kept: the running total
  starts at \<open>+0.0\<close> and is only added to, so it is never \<open>-0.0\<close>.  \<open>int\<close> has 32 bits and
  \<open>size_t\<close> 64.
\<close>

datatype double = Fin rat | PInf | NInf | NaN

text \<open>Powers with an integer exponent, by repeated squaring: \<open>ipow b e = b ^ e\<close> for \<open>e \<ge> 0\<close>.\<close>

function ipow :: "rat \<Rightarrow> int \<Rightarrow> rat" where
  "ipow b e =
     (if e \<le> 0 then 1
      else if even e then ipow (b * b) (e div 2)
      else b * ipow (b * b) (e div 2))"
  by pat_completeness auto
termination
  by (relation "measure (\<lambda>(b, e). nat e)") auto

declare ipow.simps [simp del]

definition pow2 :: "int \<Rightarrow> rat" where
  "pow2 e = (if 0 \<le> e then ipow 2 e else 1 / ipow 2 (- e))"

definition pow10 :: "int \<Rightarrow> rat" where
  "pow10 e = (if 0 \<le> e then ipow 10 e else 1 / ipow 10 (- e))"

text \<open>The number of binary digits of a positive integer.\<close>

function bitlen :: "int \<Rightarrow> int" where
  "bitlen n = (if n \<le> 0 then 0 else 1 + bitlen (n div 2))"
  by pat_completeness auto
termination
  by (relation "measure nat") auto

declare bitlen.simps [simp del]

text \<open>For \<open>q > 0\<close>, the exponent \<open>e\<close> with \<open>2 ^ e \<le> q < 2 ^ (e + 1)\<close>.\<close>

definition floor_log2 :: "rat \<Rightarrow> int" where
  "floor_log2 q =
     (case quotient_of q of
        (p, d) \<Rightarrow>
          (let e = bitlen p - bitlen d
           in if pow2 e \<le> q then e else e - 1))"

definition round_half_even :: "rat \<Rightarrow> int" where
  "round_half_even q =
     (let f = \<lfloor>q\<rfloor>; r = q - of_int f
      in if r < 1 / 2 then f
         else if 1 / 2 < r then f + 1
         else if even f then f else f + 1)"

text \<open>
  The spacing of the doubles around \<open>q\<close>: 53 significant bits, and the spacing of the
  subnormals, \<open>2 ^ - 1074\<close>, below the least normal exponent \<open>- 1022\<close>.  \<open>ulp_unbounded\<close>
  is the spacing there would be if exponents had no lower limit.
\<close>

definition ulp_unbounded :: "rat \<Rightarrow> rat" where
  "ulp_unbounded q = pow2 (floor_log2 \<bar>q\<bar> - 52)"

definition ulp :: "rat \<Rightarrow> rat" where
  "ulp q = pow2 (max (floor_log2 \<bar>q\<bar>) (- 1022) - 52)"

definition nearest_unbounded :: "rat \<Rightarrow> rat" where
  "nearest_unbounded q =
     (if q = 0 then 0 else of_int (round_half_even (q / ulp_unbounded q)) * ulp_unbounded q)"

definition nearest :: "rat \<Rightarrow> rat" where
  "nearest q = (if q = 0 then 0 else of_int (round_half_even (q / ulp q)) * ulp q)"

definition overflows :: "rat \<Rightarrow> bool" where
  "overflows q = (pow2 1024 \<le> \<bar>nearest q\<bar>)"

definition to_double :: "rat \<Rightarrow> double" where
  "to_double q = (if overflows q then (if 0 < q then PInf else NInf) else Fin (nearest q))"

definition double_of_int :: "int \<Rightarrow> double" where
  "double_of_int i = to_double (of_int i)"

fun dneg :: "double \<Rightarrow> double" where
  "dneg (Fin a) = Fin (- a)"
| "dneg PInf = NInf"
| "dneg NInf = PInf"
| "dneg NaN = NaN"

definition inf_of_sign :: "rat \<Rightarrow> double \<Rightarrow> double" where
  "inf_of_sign a i = (if a = 0 then NaN else if 0 < a then i else dneg i)"

fun dmul :: "double \<Rightarrow> double \<Rightarrow> double" where
  "dmul (Fin a) (Fin b) = to_double (a * b)"
| "dmul NaN y = NaN"
| "dmul x NaN = NaN"
| "dmul (Fin a) y = inf_of_sign a y"
| "dmul x (Fin b) = inf_of_sign b x"
| "dmul x y = (if x = y then PInf else NInf)"

fun dadd :: "double \<Rightarrow> double \<Rightarrow> double" where
  "dadd (Fin a) (Fin b) = to_double (a + b)"
| "dadd NaN y = NaN"
| "dadd x NaN = NaN"
| "dadd (Fin a) y = y"
| "dadd x (Fin b) = x"
| "dadd x y = (if x = y then x else NaN)"

text \<open>
  \<open>operator<<\<close> on a \<open>double\<close> under \<open>std::fixed\<close> and \<open>std::setprecision(2)\<close>: the exact
  value rounded to two decimals, ties to even, as \<open>printf("%.2f")\<close> prints it.
\<close>

definition fmt_fixed2 :: "double \<Rightarrow> string" where
  "fmt_fixed2 x =
     (case x of
        Fin q \<Rightarrow>
          (let n = round_half_even (\<bar>q\<bar> * 100)
           in (if q < 0 then ''-'' else []) @ show_dec (n div 100) @ ''.'' @
              show_dec (n mod 100 div 10) @ show_dec (n mod 10))
      | PInf \<Rightarrow> ''inf''
      | NInf \<Rightarrow> ''-inf''
      | NaN \<Rightarrow> ''nan'')"

subsection \<open>\<open>std::stoi\<close> and \<open>std::stod\<close>\<close>

text \<open>
  The two conversions are \<open>strtol\<close> (base 10) and \<open>strtod\<close> in the C locale behind the
  wrapper of the standard library: \<open>std::invalid_argument\<close> when no character is
  converted, \<open>std::out_of_range\<close> when \<open>errno\<close> is \<open>ERANGE\<close> or the value does not fit the
  result type.  Both skip leading white space, read the longest prefix that is a number
  and ignore what follows it.  \<open>what\<close> is the text libstdc++ gives the exception.
\<close>

datatype exn = Invalid_argument string | Out_of_range string

fun what :: "exn \<Rightarrow> string" where
  "what (Invalid_argument s) = s"
| "what (Out_of_range s) = s"

definition is_space :: "char \<Rightarrow> bool" where
  "is_space c = (c \<in> set [CHR 0x20, CHR 0x09, CHR 0x0A, CHR 0x0B, CHR 0x0C, CHR 0x0D])"

definition is_digit :: "char \<Rightarrow> bool" where
  "is_digit c = (48 \<le> (of_char c :: int) \<and> (of_char c :: int) \<le> 57)"

definition is_xdigit :: "char \<Rightarrow> bool" where
  "is_xdigit c =
     (is_digit c \<or> (65 \<le> (of_char c :: int) \<and> (of_char c :: int) \<le> 70)
                \<or> (97 \<le> (of_char c :: int) \<and> (of_char c :: int) \<le> 102))"

definition digit_val :: "char \<Rightarrow> int" where
  "digit_val c =
     (if is_digit c then of_char c - 48
      else if 97 \<le> (of_char c :: int) then of_char c - 87
      else of_char c - 55)"

definition to_lower :: "char \<Rightarrow> char" where
  "to_lower c =
     (if 65 \<le> (of_char c :: int) \<and> (of_char c :: int) \<le> 90 then char_of (of_char c + 32 :: int)
      else c)"

definition digits_value :: "int \<Rightarrow> string \<Rightarrow> int" where
  "digits_value base ds = foldl (\<lambda>a c. base * a + digit_val c) 0 ds"

definition take_sign :: "string \<Rightarrow> bool \<times> string" where
  "take_sign s =
     (case s of
        [] \<Rightarrow> (False, s)
      | c # t \<Rightarrow> if c = CHR ''-'' then (True, t) else if c = CHR ''+'' then (False, t)
                 else (False, s))"

definition stoi :: "string \<Rightarrow> exn + int" where
  "stoi str =
     (case take_sign (dropWhile is_space str) of
        (neg, s) \<Rightarrow>
          (let ds = takeWhile is_digit s;
               v = (if neg then - digits_value 10 ds else digits_value 10 ds)
           in if ds = [] then Inl (Invalid_argument ''stoi'')
              else if v < - (2 ^ 31) \<or> 2 ^ 31 - 1 < v then Inl (Out_of_range ''stoi'')
              else Inr v))"

text \<open>
  The exponent part that may follow a mantissa: one of the marker characters, an
  optional sign and at least one decimal digit; anything else is no exponent.
\<close>

definition exponent_part :: "string \<Rightarrow> string \<Rightarrow> int" where
  "exponent_part markers s =
     (case s of
        [] \<Rightarrow> 0
      | c # t \<Rightarrow>
          if c \<in> set markers then
            (case take_sign t of
               (neg, t') \<Rightarrow>
                 (let ds = takeWhile is_digit t'
                  in if neg then - digits_value 10 ds else digits_value 10 ds))
          else 0)"

text \<open>
  A mantissa in the given base: digits, an optional point, digits, with at least one
  digit in all.  The result is the value of all the digits as an integer, the number of
  digits after the point and the rest of the input.
\<close>

definition mantissa :: "int \<Rightarrow> (char \<Rightarrow> bool) \<Rightarrow> string \<Rightarrow> (int \<times> nat \<times> string) option" where
  "mantissa base is_dig s =
     (let ip = takeWhile is_dig s; r1 = dropWhile is_dig s
      in case r1 of
           c # t \<Rightarrow>
             if c = CHR ''.'' then
               (let fp = takeWhile is_dig t
                in if ip = [] \<and> fp = [] then None
                   else Some (digits_value base (ip @ fp), length fp, dropWhile is_dig t))
             else if ip = [] then None else Some (digits_value base ip, 0, r1)
         | [] \<Rightarrow> if ip = [] then None else Some (digits_value base ip, 0, r1))"

datatype literal = Number rat | Infinity | Not_a_number

definition hex_literal :: "string \<Rightarrow> rat option" where
  "hex_literal s =
     (case s of
        z # x # t \<Rightarrow>
          if z = CHR ''0'' \<and> to_lower x = CHR ''x'' then
            (case mantissa 16 is_xdigit t of
               None \<Rightarrow> None
             | Some (m, k, r) \<Rightarrow> Some (of_int m * pow2 (exponent_part ''pP'' r - 4 * int k)))
          else None
      | _ \<Rightarrow> None)"

definition decimal_literal :: "string \<Rightarrow> rat option" where
  "decimal_literal s =
     (case mantissa 10 is_digit s of
        None \<Rightarrow> None
      | Some (m, k, r) \<Rightarrow> Some (of_int m * pow10 (exponent_part ''eE'' r - int k)))"

definition scan_literal :: "string \<Rightarrow> literal option" where
  "scan_literal s =
     (case hex_literal s of
        Some q \<Rightarrow> Some (Number q)
      | None \<Rightarrow>
          (case decimal_literal s of
             Some q \<Rightarrow> Some (Number q)
           | None \<Rightarrow>
               if map to_lower (take 3 s) = ''inf'' then Some Infinity
               else if map to_lower (take 3 s) = ''nan'' then Some Not_a_number
               else None))"

text \<open>
  \<open>strtod\<close> reports \<open>ERANGE\<close> when the value overflows, and (glibc) when the result is
  tiny, below the least normal number once rounded, and inexact.
\<close>

definition underflows :: "rat \<Rightarrow> bool" where
  "underflows q = (\<bar>nearest_unbounded q\<bar> < pow2 (- 1022) \<and> nearest q \<noteq> q)"

definition stod :: "string \<Rightarrow> exn + double" where
  "stod str =
     (case take_sign (dropWhile is_space str) of
        (neg, s) \<Rightarrow>
          (case scan_literal s of
             None \<Rightarrow> Inl (Invalid_argument ''stod'')
           | Some Infinity \<Rightarrow> Inr (if neg then NInf else PInf)
           | Some Not_a_number \<Rightarrow> Inr NaN
           | Some (Number q) \<Rightarrow>
               if overflows q \<or> underflows q then Inl (Out_of_range ''stod'')
               else Inr (Fin (if neg then - nearest q else nearest q))))"

section \<open>\<open>CSVReader::calculateTotalRevenue\<close>\<close>

text \<open>
  \<open>std::find\<close> followed by \<open>std::distance\<close> from \<open>begin()\<close>: the position of the first
  element equal to the value, and the length of the sequence when there is none (the
  iterator is then \<open>end()\<close>).
\<close>

fun find_first :: "'a \<Rightarrow> 'a list \<Rightarrow> nat" where
  "find_first x [] = 0"
| "find_first x (y # ys) = (if y = x then 0 else Suc (find_first x ys))"

text \<open>
  \<open>int price_idx = std::distance(...)\<close> narrows a \<open>ptrdiff_t\<close> to a 32-bit \<open>int\<close>, and
  \<open>row[price_idx]\<close> converts it to \<open>size_t\<close>.  \<open>operator[]\<close> of \<open>std::vector\<close> checks
  nothing: reading at or past \<open>size()\<close> is undefined behaviour, which no \<open>catch\<close> clause
  sees.  The model makes it a result of its own.
\<close>

datatype 'a ub = UB | Defined 'a

definition int_of_ptrdiff :: "nat \<Rightarrow> int" where
  "int_of_ptrdiff n = (int n + 2 ^ 31) mod 2 ^ 32 - 2 ^ 31"

definition subscript :: "'a list \<Rightarrow> int \<Rightarrow> 'a ub" where
  "subscript v i =
     (let n = (if i < 0 then i + 2 ^ 64 else i)
      in if nat n < length v then Defined (v ! nat n) else UB)"

text \<open>
  The body of the \<open>try\<close> block for one row, up to the product: \<open>Inl\<close> is the exception
  that reaches the \<open>catch\<close> clause.  \<open>row[units_idx]\<close> is only read once \<open>std::stod\<close> has
  returned.
  \<^verbatim>\<open>
  double price = std::stod(row[price_idx]);
  int units = std::stoi(row[units_idx]);
  total_revenue += price * units;
  \<close>
\<close>

definition row_revenue :: "int \<Rightarrow> int \<Rightarrow> string list \<Rightarrow> (exn + double) ub" where
  "row_revenue price_idx units_idx row =
     (case subscript row price_idx of
        UB \<Rightarrow> UB
      | Defined pc \<Rightarrow>
          (case stod pc of
             Inl e \<Rightarrow> Defined (Inl e)
           | Inr price \<Rightarrow>
               (case subscript row units_idx of
                  UB \<Rightarrow> UB
                | Defined uc \<Rightarrow>
                    (case stoi uc of
                       Inl e \<Rightarrow> Defined (Inl e)
                     | Inr units \<Rightarrow> Defined (Inr (dmul price (double_of_int units)))))))"

definition warning :: "exn \<Rightarrow> string" where
  "warning e = ''[WARNING] Skipping row due to parsing error: '' @ what e @ ''\<newline>''"

text \<open>The \<open>for\<close> loop over \<open>data\<close>, carrying \<open>total_revenue\<close> and the console.\<close>

fun revenue_loop :: "int \<Rightarrow> int \<Rightarrow> string list list \<Rightarrow> double \<times> world \<Rightarrow> (double \<times> world) ub" where
  "revenue_loop price_idx units_idx [] tw = Defined tw"
| "revenue_loop price_idx units_idx (row # rows) (total_revenue, w) =
     (case row_revenue price_idx units_idx row of
        UB \<Rightarrow> UB
      | Defined (Inl e) \<Rightarrow>
          revenue_loop price_idx units_idx rows (total_revenue, put Cerr (warning e) w)
      | Defined (Inr x) \<Rightarrow>
          revenue_loop price_idx units_idx rows (dadd total_revenue x, w))"

definition no_data_notice :: string where
  "no_data_notice = ''[INFO] Cannot calculate revenue: no data loaded.\<newline>''"

definition no_columns_error :: string where
  "no_columns_error =
     ''[ERROR] Could not find '' @ [CHR 0x27] @ ''Price'' @ [CHR 0x27] @ '' or '' @
     [CHR 0x27] @ ''UnitsSold'' @ [CHR 0x27] @ '' columns for analysis.\<newline>''"

definition report :: "double \<Rightarrow> world \<Rightarrow> world" where
  "report total_revenue w =
     put Cout (''Total Estimated Revenue: $'' @ fmt_fixed2 total_revenue @ ''\<newline>\<newline>'')
       (put Cout ''--- Analysis Result ---\<newline>'' w)"

text \<open>
  The method is \<open>const\<close>: it cannot assign \<open>data\<close> or \<open>headers\<close>, so the reader is an
  argument only and the result is the world the call leaves, or undefined behaviour.
\<close>

definition calculateTotalRevenue :: "CSVReader \<Rightarrow> world \<Rightarrow> world ub" where
  "calculateTotalRevenue r w =
     (if data r = [] then Defined (put Cout no_data_notice w)
      else
        (let price_it = find_first ''Price'' (headers r);
             units_it = find_first ''UnitsSold'' (headers r)
         in if price_it = length (headers r) \<or> units_it = length (headers r)
            then Defined (put Cerr no_columns_error w)
            else
              (case revenue_loop (int_of_ptrdiff price_it) (int_of_ptrdiff units_it) (data r)
                      (Fin 0, w) of
                 UB \<Rightarrow> UB
               | Defined (total_revenue, w') \<Rightarrow> Defined (report total_revenue w'))))"

section \<open>Vocabulary of the properties\<close>

text \<open>A line written from its fields: the fields with one comma between neighbours.\<close>

fun join_fields :: "string list \<Rightarrow> string" where
  "join_fields [] = []"
| "join_fields [f] = f"
| "join_fields (f # g # gs) = f @ CHR '','' # join_fields (g # gs)"

text \<open>A text file written from its lines: every line followed by a newline.\<close>

definition file_text :: "string list \<Rightarrow> string" where
  "file_text ls = concat (map (\<lambda>l. l @ [CHR 0x0A]) ls)"

text \<open>Whether \<open>std::ifstream ifs(filename)\<close> opens its file in a world.\<close>

definition can_open :: "world \<Rightarrow> string \<Rightarrow> bool" where
  "can_open w filename = (case files w filename of Readable contents \<Rightarrow> True | _ \<Rightarrow> False)"

text \<open>
  The products \<open>price * units\<close> of the rows both of whose cells parse, and the exceptions
  of the rows one of whose cells does not, each in the order of the rows.
\<close>

definition parsed_products :: "int \<Rightarrow> int \<Rightarrow> string list list \<Rightarrow> double list" where
  "parsed_products price_idx units_idx rows =
     List.map_filter
       (\<lambda>row. case row_revenue price_idx units_idx row of Defined (Inr x) \<Rightarrow> Some x | _ \<Rightarrow> None)
       rows"

definition parse_errors :: "int \<Rightarrow> int \<Rightarrow> string list list \<Rightarrow> exn list" where
  "parse_errors price_idx units_idx rows =
     List.map_filter
       (\<lambda>row. case row_revenue price_idx units_idx row of Defined (Inl e) \<Rightarrow> Some e | _ \<Rightarrow> None)
       rows"

text \<open>The console after one warning for each exception.\<close>

definition put_warnings :: "exn list \<Rightarrow> world \<Rightarrow> world" where
  "put_warnings es w = w\<lparr>console := console w @ map (\<lambda>e. (Cerr, warning e)) es\<rparr>"

text \<open>A world with no file in it, in which no file can be created either.\<close>

definition bare_world :: world where
  "bare_world = \<lparr>files = (\<lambda>f. NoFile), creatable = False, console = []\<rparr>"

text \<open>The same world with one readable file added.\<close>

definition with_file :: "string \<Rightarrow> string \<Rightarrow> world \<Rightarrow> world" where
  "with_file filename contents w = w\<lparr>files := (files w)(filename := Readable contents)\<rparr>"

text \<open>The two column indices \<open>calculateTotalRevenue\<close> computes from \<open>headers\<close>.\<close>

definition price_idx :: "CSVReader \<Rightarrow> int" where
  "price_idx r = int_of_ptrdiff (find_first ''Price'' (headers r))"

definition units_idx :: "CSVReader \<Rightarrow> int" where
  "units_idx r = int_of_ptrdiff (find_first ''UnitsSold'' (headers r))"

text \<open>The example table: what \<open>load\<close> reads from the mock file.\<close>

definition example_headers :: "string list" where
  "example_headers = [''ItemID'', ''Category'', ''Price'', ''UnitsSold'', ''Location'']"

definition example_rows :: "string list list" where
  "example_rows =
     [[''101'', ''Electronics'', ''49.99'', ''150'', ''East''],
      [''102'', ''Books'', ''19.50'', ''300'', ''West''],
      [''103'', ''Electronics'', ''129.00'', ''80'', ''North''],
      [''104'', ''Clothing'', ''35.75'', ''220'', ''East''],
      [''105'', ''Books'', ''15.00'', ''450'', ''South'']]"






section \<open>Tokenising a line\<close>

lemma read_until_delim:
  "d \<notin> set f \<Longrightarrow> read_until d (f @ d # rest) = (f, rest, False)"
  by (induction f) auto

lemma read_until_end:
  "d \<notin> set f \<Longrightarrow> read_until d f = (f, [], True)"
  by (induction f) auto

lemma parseRow_loop_stop:
  "eofbit ss \<or> failbit ss \<Longrightarrow> parseRow_loop ss acc = acc"
  by (subst parseRow_loop.simps) (simp add: getline_def)

lemma parseRow_loop_last:
  assumes "CHR '','' \<notin> set f"
  shows "parseRow_loop (open_stream f) acc = (if f = [] then acc else acc @ [f])"
  using assms
  by (subst parseRow_loop.simps)
     (simp add: getline_def open_stream_def read_until_end parseRow_loop_stop)

lemma parseRow_loop_field:
  assumes "CHR '','' \<notin> set f"
  shows "parseRow_loop (open_stream (f @ CHR '','' # rest)) acc =
         parseRow_loop (open_stream rest) (acc @ [f])"
  using assms
  by (subst parseRow_loop.simps)
     (simp add: getline_def open_stream_def read_until_delim)

text \<open>
  What the loop does with a line written from comma-free fields: it returns the fields,
  without the last one when that is empty.
\<close>

lemma parseRow_loop_join:
  assumes "\<forall>f \<in> set fs. CHR '','' \<notin> set f" and "fs \<noteq> []"
  shows "parseRow_loop (open_stream (join_fields fs)) acc =
         acc @ (if last fs = [] then butlast fs else fs)"
  using assms
proof (induction fs arbitrary: acc rule: join_fields.induct)
  case 1
  then show ?case by simp
next
  case (2 f)
  then show ?case by (simp add: parseRow_loop_last)
next
  case (3 f g gs)
  then show ?case by (simp add: parseRow_loop_field)
qed

lemma join_fields_snoc_empty:
  "fs \<noteq> [] \<Longrightarrow> join_fields (fs @ [[]]) = join_fields fs @ '',''"
  by (induction fs rule: join_fields.induct) auto

text \<open>Every line is written from comma-free fields, so the two results below cover every line.\<close>

lemma every_line_is_joined:
  "\<exists>fs. fs \<noteq> [] \<and> (\<forall>f \<in> set fs. CHR '','' \<notin> set f) \<and> join_fields fs = s"
proof (induction s)
  case Nil
  have "join_fields [[]] = []" by simp
  then show ?case by (intro exI [of _ "[[]]"]) simp
next
  case (Cons c s)
  then obtain fs where fs: "fs \<noteq> []" "\<forall>f \<in> set fs. CHR '','' \<notin> set f" "join_fields fs = s"
    by blast
  then obtain g gs where g: "fs = g # gs" by (cases fs) auto
  show ?case
  proof (cases "c = CHR '',''")
    case True
    with fs g have "join_fields ([] # g # gs) = c # s" by simp
    with fs g show ?thesis by (intro exI [of _ "[] # g # gs"]) simp
  next
    case False
    from fs g have "join_fields ((c # g) # gs) = c # s" by (cases gs) auto
    with fs g False show ?thesis by (intro exI [of _ "(c # g) # gs"]) simp
  qed
qed

text \<open>
  C4.  \<open>parseRow\<close> splits at every comma and nowhere else, whatever the other characters
  are (quotes and blanks are ordinary characters), and keeps the fields as they are,
  empty ones inside the line included: a line written from fields that hold no comma,
  the last of them not empty, is parsed back into exactly those fields.
\<close>

theorem parseRow_splits_at_every_comma:
  assumes "\<forall>f \<in> set fs. CHR '','' \<notin> set f" and "fs \<noteq> []" and "last fs \<noteq> []"
  shows "parseRow (join_fields fs) = fs"
  using parseRow_loop_join [OF assms(1,2), of "[]"] assms(3) by (simp add: parseRow_def)

theorem parseRow_splits_at_every_comma_witness:
  "list_all (\<lambda>f. CHR '','' \<notin> set f) [''a'', ''b'', '''', ''d''] \<and>
   [''a'', ''b'', '''', ''d''] \<noteq> [] \<and> last [''a'', ''b'', '''', ''d''] \<noteq> [] \<and>
   join_fields [''a'', ''b'', '''', ''d''] = ''a,b,,d'' \<and>
   parseRow ''a,b,,d'' = [''a'', ''b'', '''', ''d'']"
  using parseRow_splits_at_every_comma [of "[''a'', ''b'', '''', ''d'']"] by simp

text \<open>
  C9.  A line that ends in a comma has no empty field after that comma: the line written
  from comma-free fields and then one more comma is parsed into those fields only, so
  \<open>a,\<close> gives the one field \<open>a\<close> and a line of \<open>k\<close> commas gives \<open>k\<close> empty fields.
\<close>

theorem parseRow_drops_trailing_empty_field:
  assumes "\<forall>f \<in> set fs. CHR '','' \<notin> set f" and "fs \<noteq> []"
  shows "parseRow (join_fields fs @ '','') = fs \<and>
         parseRow (replicate k (CHR '','')) = replicate k []"
proof
  from assms have "\<forall>f \<in> set (fs @ [[]]). CHR '','' \<notin> set f" by simp
  from parseRow_loop_join [OF this, of "[]"] assms(2)
  show "parseRow (join_fields fs @ '','') = fs"
    by (simp add: parseRow_def join_fields_snoc_empty)
next
  have rep: "join_fields (replicate (Suc n) []) = replicate n (CHR '','')" for n
    by (induction n) auto
  have bl: "butlast (replicate (Suc n) []) = replicate n ([] :: string)" for n
    by (induction n) auto
  have "parseRow (replicate n (CHR '','')) = replicate n []" for n
    using parseRow_loop_join [of "replicate (Suc n) []" "[]"]
    by (simp add: parseRow_def rep bl del: replicate_Suc)
  then show "parseRow (replicate k (CHR '','')) = replicate k []" .
qed

theorem parseRow_drops_trailing_empty_field_witness:
  "list_all (\<lambda>f. CHR '','' \<notin> set f) [''a''] \<and> [''a''] \<noteq> [] \<and>
   parseRow ''a,'' = [''a''] \<and> parseRow '','' = ['''']"
  using parseRow_drops_trailing_empty_field [of "[''a'']" 1] by simp

section \<open>Loading a file\<close>

lemma getline_line:
  "d \<notin> set l \<Longrightarrow> getline (open_stream (l @ d # rest)) d = (Some l, open_stream rest)"
  by (simp add: getline_def open_stream_def read_until_delim)

lemma load_loop_stop:
  "eofbit ifs \<or> failbit ifs \<Longrightarrow> load_loop ifs h r = r"
  by (subst load_loop.simps) (simp add: getline_def)

text \<open>The last line of a file, when no newline follows it.\<close>

lemma load_loop_tail:
  assumes "CHR 0x0A \<notin> set t"
  shows "load_loop (open_stream t) h r =
         (if t = [] then r
          else if h then r\<lparr>headers := parseRow t\<rparr>
          else r\<lparr>data := data r @ [parseRow t]\<rparr>)"
  using assms
  by (subst load_loop.simps)
     (simp add: getline_def open_stream_def read_until_end load_loop_stop)

lemma load_loop_line:
  assumes "CHR 0x0A \<notin> set l"
  shows "load_loop (open_stream (l @ CHR 0x0A # rest)) h r =
         (if l = [] then load_loop (open_stream rest) h r
          else if h then load_loop (open_stream rest) False (r\<lparr>headers := parseRow l\<rparr>)
          else load_loop (open_stream rest) h (r\<lparr>data := data r @ [parseRow l]\<rparr>))"
  using assms
  by (subst load_loop.simps) (simp add: getline_line)

lemma file_text_Cons: "file_text (l # ls) @ t = l @ CHR 0x0A # (file_text ls @ t)"
  by (simp add: file_text_def)

text \<open>
  A file is lines \<open>ls\<close>, each ended by a newline, and a last line \<open>t\<close> that no newline
  follows (\<open>t\<close> is empty when the file ends in a newline).  Once the header is set, the
  loop appends one row for each line that is not empty.
\<close>

lemma load_loop_rows:
  assumes "\<forall>l \<in> set ls. CHR 0x0A \<notin> set l" and "CHR 0x0A \<notin> set t"
  shows "load_loop (open_stream (file_text ls @ t)) False r =
         r\<lparr>data := data r @ map parseRow (filter (\<lambda>l. l \<noteq> []) (ls @ [t]))\<rparr>"
  using assms
proof (induction ls arbitrary: r)
  case Nil
  then show ?case by (simp add: file_text_def load_loop_tail)
next
  case (Cons l ls)
  then show ?case by (simp add: file_text_Cons load_loop_line)
qed

text \<open>
  From the start of the file, the first line that is not empty replaces \<open>headers\<close> and
  the later ones are appended to whatever \<open>data\<close> already holds.
\<close>

lemma load_loop_header:
  assumes "\<forall>l \<in> set ls. CHR 0x0A \<notin> set l" and "CHR 0x0A \<notin> set t"
  shows "load_loop (open_stream (file_text ls @ t)) True r =
         (case filter (\<lambda>l. l \<noteq> []) (ls @ [t]) of
            [] \<Rightarrow> r
          | h # rest \<Rightarrow> r\<lparr>headers := parseRow h, data := data r @ map parseRow rest\<rparr>)"
  using assms
proof (induction ls arbitrary: r)
  case Nil
  then show ?case by (simp add: file_text_def load_loop_tail)
next
  case (Cons l ls)
  then show ?case by (simp add: file_text_Cons load_loop_line load_loop_rows)
qed

text \<open>Every text is such lines and such a last line.\<close>

lemma every_text_is_lines:
  "\<exists>ls t. (\<forall>l \<in> set ls. CHR 0x0A \<notin> set l) \<and> CHR 0x0A \<notin> set t \<and> file_text ls @ t = s"
proof (induction s)
  case Nil
  have "file_text [] @ [] = []" by (simp add: file_text_def)
  then show ?case by (intro exI [of _ "[]"]) simp
next
  case (Cons c s)
  then obtain ls t where lt: "\<forall>l \<in> set ls. CHR 0x0A \<notin> set l" "CHR 0x0A \<notin> set t"
    "file_text ls @ t = s" by blast
  show ?case
  proof (cases "c = CHR 0x0A")
    case True
    with lt have "file_text ([] # ls) @ t = c # s" by (simp add: file_text_def)
    with lt show ?thesis by (intro exI [of _ "[] # ls"] exI [of _ t]) simp
  next
    case False
    show ?thesis
    proof (cases ls)
      case Nil
      with lt have "file_text [] @ (c # t) = c # s" by (simp add: file_text_def)
      with lt False show ?thesis by (intro exI [of _ "[]"] exI [of _ "c # t"]) simp
    next
      case (Cons l ls')
      with lt have "file_text ((c # l) # ls') @ t = c # s" by (simp add: file_text_def)
      with lt False Cons show ?thesis by (intro exI [of _ "(c # l) # ls'"] exI [of _ t]) simp
    qed
  qed
qed





text \<open>
  The file that \<open>load\<close> opens is the one it was called with, unless that is the mock
  file and \<open>createMockFile\<close> has just written it.
\<close>

lemma can_open_after_createMockFile:
  "can_open (createMockFile w) filename \<longleftrightarrow>
     can_open w filename \<or>
     (filename = MOCK_FILENAME \<and> files w MOCK_FILENAME = NoFile \<and> creatable w)"
  by (auto simp: can_open_def createMockFile_def file_exists_modern_def put_def
           split: fnode.splits)

text \<open>
  \<open>headers\<close> is assigned, but \<open>data\<close> is only ever appended to and never cleared:
  whatever the reader held, the rows of the file come after the rows already there, and
  a file without any line that is not empty leaves even the old \<open>headers\<close> in place.
\<close>

lemma load_appends_to_prior_rows:
  assumes "\<forall>l \<in> set ls. CHR 0x0A \<notin> set l" and "CHR 0x0A \<notin> set t"
    and "files (createMockFile w) filename = Readable (file_text ls @ t)"
  shows "data (fst (snd (load filename r w))) =
           data r @ map parseRow (tl (filter (\<lambda>l. l \<noteq> []) (ls @ [t])))"
  using assms(3) load_loop_header [OF assms(1,2), of r]
  by (simp add: load_def Let_def split: list.splits)

text \<open>
  C2 asks that a second \<open>load\<close> replace what the first one read.  It does not: loading
  the mock file twice into one reader, the second call reports ten rows loaded from a
  file of five, the five of the first call followed by the same five again.
\<close>

theorem load_twice_keeps_earlier_rows:
  "(case load MOCK_FILENAME new_reader (bare_world\<lparr>creatable := True\<rparr>) of
      (ok1, r1, w1) \<Rightarrow>
        (case load MOCK_FILENAME r1 w1 of
           (ok2, r2, w2) \<Rightarrow>
             ok1 \<and> ok2 \<and> length (data r1) = 5 \<and> length (data r2) = 10 \<and>
             data r2 = data r1 @ data r1 \<and>
             last (console w2) = (Cout, ''[SUCCESS] Loaded 10 data rows from data.csv.\<newline>'')))"
  by code_simp

section \<open>The arithmetic of doubles\<close>

text \<open>\<open>ipow\<close> is the power, and \<open>pow2\<close> the power of two with an integer exponent.\<close>

lemma ipow_power: "0 \<le> e \<Longrightarrow> ipow b e = b ^ nat e"
proof (induction b e rule: ipow.induct)
  case (1 b e)
  show ?case
  proof (cases "e \<le> 0")
    case True
    with 1(3) show ?thesis by (simp add: ipow.simps)
  next
    case pos: False
    then have h: "0 \<le> e div 2" by simp
    show ?thesis
    proof (cases "even e")
      case True
      then obtain k where k: "e = 2 * k" by (auto elim: evenE)
      with pos have "0 \<le> k" by simp
      then have "nat e = 2 * nat k" using k by (simp add: nat_mult_distrib)
      with 1(1) [OF pos True h] pos True k show ?thesis
        by (subst ipow.simps) (simp add: power_mult power2_eq_square)
    next
      case False
      then obtain k where k: "e = 2 * k + 1" by (auto elim: oddE)
      with pos have k0: "0 \<le> k" by simp
      then have "nat e = Suc (2 * nat k)" using k by (simp add: nat_add_distrib nat_mult_distrib)
      moreover have "e div 2 = k" using k by simp
      ultimately show ?thesis
        using 1(2) [OF pos False h] pos False
        by (subst ipow.simps) (simp add: power_mult power2_eq_square)
    qed
  qed
qed

lemma pow2_powi: "pow2 e = 2 powi e"
  by (simp add: pow2_def ipow_power power_int_def field_simps)

lemma bitlen_nonneg: "0 \<le> bitlen n"
proof (induction n rule: bitlen.induct)
  case (1 n)
  then show ?case by (subst bitlen.simps) auto
qed

lemma bitlen_pos: "0 < n \<Longrightarrow> 0 < bitlen n"
  using bitlen_nonneg [of "n div 2"] by (subst bitlen.simps) auto

lemma bitlen_bounds: "0 < n \<Longrightarrow> 2 ^ nat (bitlen n - 1) \<le> n \<and> n < 2 ^ nat (bitlen n)"
proof (induction n rule: bitlen.induct)
  case (1 n)
  show ?case
  proof (cases "n = 1")
    case True
    have "bitlen 1 = 1" by (simp add: bitlen.simps [of 1] bitlen.simps [of 0])
    with True show ?thesis by simp
  next
    case False
    with 1(2) have h: "0 < n div 2" "\<not> n \<le> 0" by simp_all
    from 1(1) [OF h(2) h(1)] have ih: "2 ^ nat (bitlen (n div 2) - 1) \<le> n div 2" "n div 2 < 2 ^ nat (bitlen (n div 2))"
      by simp_all
    have b: "bitlen n = 1 + bitlen (n div 2)" using h by (subst bitlen.simps) simp
    have bp: "0 < bitlen (n div 2)" using h(1) by (rule bitlen_pos)
    have e1: "nat (bitlen n - 1) = Suc (nat (bitlen (n div 2) - 1))"
      and e2: "nat (bitlen n) = Suc (nat (bitlen (n div 2)))"
      using b bp by simp_all
    have "2 * (n div 2) \<le> n" "n < 2 * (n div 2 + 1)" by simp_all
    with ih show ?thesis unfolding e1 e2 by simp
  qed
qed

lemma quotient_of_pos:
  assumes "0 < q" and "quotient_of q = (p, d)"
  shows "0 < p" and "0 < d" and "q = of_int p / of_int d"
proof -
  show d: "0 < d" using assms(2) by (rule quotient_of_denom_pos)
  show q: "q = of_int p / of_int d" using assms(2) by (rule quotient_of_div)
  from assms(1) d q show "0 < p" by (simp add: zero_less_divide_iff)
qed

lemma pow2_pos: "0 < pow2 e"
  by (simp add: pow2_powi)

lemma pow2_add: "pow2 (a + b) = pow2 a * pow2 b"
  by (simp add: pow2_powi power_int_add)

lemma pow2_nat: "pow2 (int k) = 2 ^ k"
  by (simp add: pow2_powi)

text \<open>\<open>floor_log2\<close> is the binary exponent of a positive rational.\<close>

lemma floor_log2_bounds:
  assumes "0 < q"
  shows "pow2 (floor_log2 q) \<le> q" and "q < pow2 (floor_log2 q + 1)"
proof -
  obtain p d where pd: "quotient_of q = (p, d)" by (cases "quotient_of q") auto
  note qp = quotient_of_pos [OF assms pd]
  define e where "e = bitlen p - bitlen d"
  from bitlen_bounds [OF qp(1)] bitlen_bounds [OF qp(2)]
  have bp: "2 ^ nat (bitlen p - 1) \<le> p" "p < 2 ^ nat (bitlen p)"
    and bd: "2 ^ nat (bitlen d - 1) \<le> d" "d < 2 ^ nat (bitlen d)" by simp_all
  have lp: "0 < bitlen p" using qp(1) by (rule bitlen_pos)
  have ld: "0 < bitlen d" using qp(2) by (rule bitlen_pos)
  have P1: "pow2 (bitlen p - 1) \<le> of_int p"
  proof -
    have "pow2 (bitlen p - 1) = of_int (2 ^ nat (bitlen p - 1))"
      using lp pow2_nat [of "nat (bitlen p - 1)"] by simp
    also have "\<dots> \<le> of_int p" using bp(1) by (simp only: of_int_le_iff)
    finally show ?thesis .
  qed
  have P2: "of_int p < pow2 (bitlen p)"
  proof -
    have "(of_int p :: rat) < of_int (2 ^ nat (bitlen p))" using bp(2) by (simp only: of_int_less_iff)
    also have "\<dots> = pow2 (bitlen p)" using lp pow2_nat [of "nat (bitlen p)"] by simp
    finally show ?thesis .
  qed
  have D1: "pow2 (bitlen d - 1) \<le> of_int d"
  proof -
    have "pow2 (bitlen d - 1) = of_int (2 ^ nat (bitlen d - 1))"
      using ld pow2_nat [of "nat (bitlen d - 1)"] by simp
    also have "\<dots> \<le> of_int d" using bd(1) by (simp only: of_int_le_iff)
    finally show ?thesis .
  qed
  have D2: "of_int d < pow2 (bitlen d)"
  proof -
    have "(of_int d :: rat) < of_int (2 ^ nat (bitlen d))" using bd(2) by (simp only: of_int_less_iff)
    also have "\<dots> = pow2 (bitlen d)" using ld pow2_nat [of "nat (bitlen d)"] by simp
    finally show ?thesis .
  qed
  have dpos: "(0 :: rat) < of_int d" using qp(2) by simp
  have lower: "pow2 (e - 1) < q"
  proof -
    have "pow2 (e - 1) * of_int d < pow2 (e - 1) * pow2 (bitlen d)"
      using D2 pow2_pos by simp
    also have "\<dots> = pow2 (bitlen p - 1)"
      by (simp add: pow2_add [symmetric] e_def)
    also have "\<dots> \<le> of_int p" by (rule P1)
    finally have "pow2 (e - 1) * of_int d < of_int p" .
    then show ?thesis using dpos qp(3) by (simp add: pos_less_divide_eq)
  qed
  have upper: "q < pow2 (e + 1)"
  proof -
    have "of_int p < pow2 (bitlen p)" by (rule P2)
    also have "\<dots> = pow2 (e + 1) * pow2 (bitlen d - 1)"
      by (simp add: pow2_add [symmetric] e_def)
    also have "\<dots> \<le> pow2 (e + 1) * of_int d"
      using D1 pow2_pos by simp
    finally have "of_int p < pow2 (e + 1) * of_int d" .
    then show ?thesis using dpos qp(3) by (simp add: pos_divide_less_eq)
  qed
  have fl: "floor_log2 q = (if pow2 e \<le> q then e else e - 1)"
    by (simp add: floor_log2_def pd e_def Let_def)
  show "pow2 (floor_log2 q) \<le> q"
    using lower by (simp add: fl less_imp_le)
  show "q < pow2 (floor_log2 q + 1)"
    using upper by (auto simp: fl)
qed

lemma round_half_even_close: "\<bar>of_int (round_half_even x) - x\<bar> \<le> 1 / 2"
proof -
  have a: "of_int \<lfloor>x\<rfloor> \<le> x" and b: "x < of_int \<lfloor>x\<rfloor> + 1" by linarith+
  consider "x - of_int \<lfloor>x\<rfloor> < 1 / 2" | "1 / 2 < x - of_int \<lfloor>x\<rfloor>"
    | "x - of_int \<lfloor>x\<rfloor> = 1 / 2" by linarith
  then show ?thesis
  proof cases
    case 1
    then have "round_half_even x = \<lfloor>x\<rfloor>" by (simp add: round_half_even_def Let_def)
    with a 1 show ?thesis by simp
  next
    case 2
    then have "round_half_even x = \<lfloor>x\<rfloor> + 1" by (simp add: round_half_even_def Let_def)
    with b 2 show ?thesis by simp
  next
    case 3
    then have "round_half_even x = \<lfloor>x\<rfloor> \<or> round_half_even x = \<lfloor>x\<rfloor> + 1"
      by (simp add: round_half_even_def Let_def)
    with 3 show ?thesis by auto
  qed
qed

lemma ulp_pos: "0 < ulp q"
  by (simp add: ulp_def pow2_pos)

text \<open>The rounded value is within half a unit in the last place of the exact one.\<close>

lemma nearest_close: "\<bar>nearest q - q\<bar> \<le> ulp q / 2"
proof (cases "q = 0")
  case True
  then show ?thesis using ulp_pos [of 0] by (simp add: nearest_def)
next
  case False
  have "nearest q - q = (of_int (round_half_even (q / ulp q)) - q / ulp q) * ulp q"
    using False ulp_pos [of q] by (simp add: nearest_def left_diff_distrib)
  then have "\<bar>nearest q - q\<bar> = \<bar>of_int (round_half_even (q / ulp q)) - q / ulp q\<bar> * ulp q"
    using ulp_pos [of q] by (simp add: abs_mult)
  also have "\<dots> \<le> 1 / 2 * ulp q"
    using round_half_even_close [of "q / ulp q"] ulp_pos [of q]
    by (intro mult_right_mono) simp_all
  finally show ?thesis by simp
qed

section \<open>The aggregate\<close>

subsection \<open>The loop over the rows\<close>

lemma find_first_le: "find_first x xs \<le> length xs"
  by (induction xs) auto

text \<open>\<open>std::find\<close> returns \<open>end()\<close> exactly when no element is equal to the value.\<close>

lemma find_first_eq_length: "find_first x xs = length xs \<longleftrightarrow> x \<notin> set xs"
proof (induction xs)
  case Nil
  then show ?case by simp
next
  case (Cons y ys)
  then show ?case using find_first_le [of x ys] by auto
qed

lemma put_warnings_Nil: "put_warnings [] w = w"
  by (simp add: put_warnings_def)

lemma put_warnings_Cons: "put_warnings (e # es) w = put_warnings es (put Cerr (warning e) w)"
  by (simp add: put_warnings_def put_def)



text \<open>
  When no row is read out of range, the loop ends with the sum, taken from left to
  right, of the products of the rows that parse, and with one warning for each row that
  does not.
\<close>

lemma revenue_loop_closed:
  assumes "\<forall>row \<in> set rows. row_revenue p u row \<noteq> UB"
  shows "revenue_loop p u rows (t, w) =
         Defined (foldl dadd t (parsed_products p u rows), put_warnings (parse_errors p u rows) w)"
  using assms
proof (induction rows arbitrary: t w)
  case Nil
  then show ?case
    by (simp add: parsed_products_def parse_errors_def map_filter_simps put_warnings_Nil)
next
  case (Cons row rows)
  then have ih: "\<And>t w. revenue_loop p u rows (t, w) =
         Defined (foldl dadd t (parsed_products p u rows), put_warnings (parse_errors p u rows) w)"
    by simp
  from Cons.prems have "row_revenue p u row \<noteq> UB" by simp
  then show ?case
    by (cases "row_revenue p u row")
       (auto simp: ih parsed_products_def parse_errors_def map_filter_simps put_warnings_Cons
             split: sum.splits)
qed

text \<open>One read out of range anywhere in the table and the whole loop is undefined.\<close>

lemma revenue_loop_UB:
  assumes "row \<in> set rows" and "row_revenue p u row = UB"
  shows "revenue_loop p u rows (t, w) = UB"
  using assms
proof (induction rows arbitrary: t w)
  case Nil
  then show ?case by simp
next
  case (Cons a rows)
  then show ?case by (auto split: ub.splits sum.splits)
qed

lemma int_of_ptrdiff_small: "n < 2 ^ 31 \<Longrightarrow> int_of_ptrdiff n = int n"
  by (simp add: int_of_ptrdiff_def)

lemma subscript_in_range: "n < length v \<Longrightarrow> subscript v (int n) = Defined (v ! n)"
  by (simp add: subscript_def)

text \<open>What the \<open>try\<close> block does with a row that has both cells.\<close>

lemma row_revenue_in_range:
  assumes "subscript row p = Defined pc" and "subscript row u = Defined uc"
  shows "row_revenue p u row =
         Defined (case stod pc of
                    Inl e \<Rightarrow> Inl e
                  | Inr price \<Rightarrow>
                      (case stoi uc of
                         Inl e \<Rightarrow> Inl e
                       | Inr units \<Rightarrow> Inr (dmul price (double_of_int units))))"
  using assms by (simp add: row_revenue_def split: sum.splits)

text \<open>A row that has a cell in both columns is never read out of range.\<close>

lemma row_with_both_cells_is_defined:
  assumes "find_first ''Price'' (headers r) < length row"
    and "find_first ''UnitsSold'' (headers r) < length row"
    and "length (headers r) < 2 ^ 31"
  shows "row_revenue (price_idx r) (units_idx r) row \<noteq> UB"
proof -
  have "find_first ''Price'' (headers r) < 2 ^ 31" "find_first ''UnitsSold'' (headers r) < 2 ^ 31"
    using find_first_le [of "''Price''" "headers r"] find_first_le [of "''UnitsSold''" "headers r"]
      assms(3) by linarith+
  then show ?thesis
    using assms(1,2)
    by (simp add: row_revenue_def price_idx_def units_idx_def int_of_ptrdiff_small
          subscript_in_range split: sum.splits)
qed

text \<open>A row without a cell in the Price column is read out of range.\<close>

lemma row_without_price_cell_is_undefined:
  assumes "length row \<le> find_first ''Price'' (headers r)" and "length (headers r) < 2 ^ 31"
  shows "row_revenue (price_idx r) (units_idx r) row = UB"
proof -
  have "find_first ''Price'' (headers r) < 2 ^ 31"
    using find_first_le [of "''Price''" "headers r"] assms(2) by linarith
  then show ?thesis
    using assms(1) by (simp add: row_revenue_def price_idx_def int_of_ptrdiff_small subscript_def)
qed

lemma out_of_range_read_is_undefined:
  assumes "''Price'' \<in> set (headers r)" and "''UnitsSold'' \<in> set (headers r)"
    and "row \<in> set (data r)" and "row_revenue (price_idx r) (units_idx r) row = UB"
  shows "calculateTotalRevenue r w = UB"
proof -
  from assms(3) have "data r \<noteq> []" by auto
  then show ?thesis
    using assms(1,2) revenue_loop_UB [OF assms(3,4), of "Fin 0" w]
    by (simp add: calculateTotalRevenue_def Let_def find_first_eq_length price_idx_def
          units_idx_def)
qed

subsection \<open>The example table\<close>

lemma example_loaded:
  "fst (snd (load MOCK_FILENAME new_reader (bare_world\<lparr>creatable := True\<rparr>))) =
     \<lparr>data = example_rows, headers = example_headers\<rparr>"
  by code_simp

lemma example_indices:
  "price_idx \<lparr>data = rows, headers = example_headers\<rparr> = 2"
  "units_idx \<lparr>data = rows, headers = example_headers\<rparr> = 3"
  by (simp_all add: price_idx_def units_idx_def example_headers_def int_of_ptrdiff_def)

lemma example_products:
  "parsed_products 2 3 example_rows = [Fin 7498.5, Fin 5850, Fin 10320, Fin 7865, Fin 6750]"
  by code_simp

lemma example_errors: "parse_errors 2 3 example_rows = []"
  by code_simp

lemma example_defined: "\<forall>row \<in> set example_rows. row_revenue 2 3 row \<noteq> UB"
proof -
  have "list_all (\<lambda>row. row_revenue 2 3 row \<noteq> UB) example_rows" by code_simp
  then show ?thesis by (simp add: list_all_iff)
qed

lemma example_sum:
  "foldl dadd (Fin 0) [Fin 7498.5, Fin 5850, Fin 10320, Fin 7865, Fin 6750] = Fin 38283.5"
  by code_simp

lemma example_format: "fmt_fixed2 (Fin 38283.5) = ''38283.50''"
  by code_simp

subsection \<open>Properties of the aggregate\<close>

text \<open>
  C1 asks that a row too short for the Price or UnitsSold index be skipped with a
  warning.  The \<open>try\<close> block is there for that, but \<open>row[price_idx]\<close> and
  \<open>row[units_idx]\<close> are the unchecked \<open>operator[]\<close>, which throws nothing: the read is
  out of bounds and undefined.  Here the file is the header \<open>Price,UnitsSold\<close> and the
  one row \<open>5\<close>, which has no second cell.
\<close>

theorem short_row_is_read_out_of_bounds:
  "fst (snd (load ''s.csv'' new_reader (with_file ''s.csv'' ''Price,UnitsSold\<newline>5\<newline>'' bare_world))) =
     \<lparr>data = [[''5'']], headers = [''Price'', ''UnitsSold'']\<rparr> \<and>
   calculateTotalRevenue \<lparr>data = [[''5'']], headers = [''Price'', ''UnitsSold'']\<rparr> w = UB"
proof
  show "fst (snd (load ''s.csv'' new_reader (with_file ''s.csv'' ''Price,UnitsSold\<newline>5\<newline>'' bare_world))) =
     \<lparr>data = [[''5'']], headers = [''Price'', ''UnitsSold'']\<rparr>"
    by code_simp
next
  have "row_revenue 0 1 [''5''] = UB" by code_simp
  then show "calculateTotalRevenue \<lparr>data = [[''5'']], headers = [''Price'', ''UnitsSold'']\<rparr> w = UB"
    using out_of_range_read_is_undefined
            [of "\<lparr>data = [[''5'']], headers = [''Price'', ''UnitsSold'']\<rparr>" "[''5'']" w]
    by (simp add: price_idx_def units_idx_def int_of_ptrdiff_def)
qed

text \<open>
  C6, as the claim states it, fails for a table with a header and no row: the test for
  an empty \<open>data\<close> comes first, and the call writes the notice that no data is loaded,
  on \<open>std::cout\<close>, not the error about the columns.
\<close>

theorem header_only_table_gets_notice:
  "''Price'' \<notin> set [''ItemID'', ''Category''] \<and>
   fst (load ''h.csv'' new_reader (with_file ''h.csv'' ''ItemID,Category\<newline>'' bare_world)) \<and>
   fst (snd (load ''h.csv'' new_reader (with_file ''h.csv'' ''ItemID,Category\<newline>'' bare_world))) =
     \<lparr>data = [], headers = [''ItemID'', ''Category'']\<rparr> \<and>
   calculateTotalRevenue \<lparr>data = [], headers = [''ItemID'', ''Category'']\<rparr> bare_world =
     Defined (put Cout no_data_notice bare_world) \<and>
   calculateTotalRevenue \<lparr>data = [], headers = [''ItemID'', ''Category'']\<rparr> bare_world \<noteq>
     Defined (put Cerr no_columns_error bare_world)"
proof -
  have "fst (load ''h.csv'' new_reader (with_file ''h.csv'' ''ItemID,Category\<newline>'' bare_world))"
    "fst (snd (load ''h.csv'' new_reader (with_file ''h.csv'' ''ItemID,Category\<newline>'' bare_world))) =
     \<lparr>data = [], headers = [''ItemID'', ''Category'']\<rparr>"
    by code_simp+
  then show ?thesis
    by (simp add: calculateTotalRevenue_def put_def bare_world_def)
qed

text \<open>
  C6, amended.  For a table with at least one row whose header has no column named
  \<open>Price\<close> or none named \<open>UnitsSold\<close>, the call writes the error about the columns on
  \<open>std::cerr\<close> and nothing else: no row is read, no total is reported, the call returns
  normally, and the reader, which a \<open>const\<close> method cannot assign, is as before.
\<close>

theorem missing_column_is_reported:
  assumes "data r \<noteq> []"
    and "''Price'' \<notin> set (headers r) \<or> ''UnitsSold'' \<notin> set (headers r)"
  shows "calculateTotalRevenue r w = Defined (put Cerr no_columns_error w)"
  using assms by (auto simp: calculateTotalRevenue_def Let_def find_first_eq_length)

theorem missing_column_is_reported_witness:
  "[[''101'', ''49.99'']] \<noteq> [] \<and> ''UnitsSold'' \<notin> set [''ItemID'', ''Price''] \<and>
   calculateTotalRevenue \<lparr>data = [[''101'', ''49.99'']], headers = [''ItemID'', ''Price'']\<rparr> bare_world =
     Defined (put Cerr no_columns_error bare_world)"
  using missing_column_is_reported
          [of "\<lparr>data = [[''101'', ''49.99'']], headers = [''ItemID'', ''Price'']\<rparr>" bare_world]
  by simp



text \<open>
  C8.  The mock file loads into the example table; the five products are 7498.5, 5850,
  10320, 7865 and 6750 as doubles, their sum is 38283.5, and the call writes the total
  as \<open>$38283.50\<close> after the line that announces the result.
\<close>

theorem example_total_revenue:
  "fst (snd (load MOCK_FILENAME new_reader (bare_world\<lparr>creatable := True\<rparr>))) =
     \<lparr>data = example_rows, headers = example_headers\<rparr> \<and>
   parsed_products 2 3 example_rows = [Fin 7498.5, Fin 5850, Fin 10320, Fin 7865, Fin 6750] \<and>
   calculateTotalRevenue \<lparr>data = example_rows, headers = example_headers\<rparr> w =
     Defined (put Cout ''Total Estimated Revenue: $38283.50\<newline>\<newline>''
                (put Cout ''--- Analysis Result ---\<newline>'' w))"
proof -
  let ?r = "\<lparr>data = example_rows, headers = example_headers\<rparr>"
  have ne: "example_rows \<noteq> []" by (simp add: example_rows_def)
  have "revenue_loop 2 3 example_rows (Fin 0, w) = Defined (Fin 38283.5, w)"
    using revenue_loop_closed [OF example_defined, of "Fin 0" w]
    by (simp only: example_products example_errors example_sum put_warnings_Nil)
  then have "calculateTotalRevenue ?r w = Defined (report (Fin 38283.5) w)"
    using ne example_indices [of example_rows]
    by (simp add: calculateTotalRevenue_def Let_def price_idx_def units_idx_def
          example_headers_def)
  then show ?thesis
    using example_format by (simp add: example_loaded example_products report_def)
qed

subsection \<open>Cells with something after the number\<close>


















end
